theory Spec2Isabelle
  imports Complex_Main "HOL-Library.Word"
begin

section \<open>DreamControl: the plugin processor (PluginProcessor.cpp)\<close>

text \<open>
  A shallow embedding of the mode-change callback, the 10 ms timer callback, the MIDI
  input handler and the band solo router of \<^verbatim>\<open>DreamControlAudioProcessor\<close>.

  Conventions of the model:
  \<^item> C++ \<^verbatim>\<open>float\<close> levels (dB readings, normalised parameter values, samples) are real
    numbers. The one rounding step of the model is in \<^verbatim>\<open>getMeterIntegralFractional\<close>, where
    a double product is narrowed to a float before it is rounded to an integer; the other
    float operations are taken as exact, and infinities and NaN are outside the model.
  \<^item> A byte (\<^verbatim>\<open>char\<close>, \<^verbatim>\<open>unsigned char\<close>) is an 8-bit word.
  \<^item> Dereferencing the null \<^verbatim>\<open>midiOutput\<close> pointer is the error value
    \<open>NullPointerDereference\<close>; every function that may reach it returns \<open>error + processor\<close>.
  \<^item> The measurement unit (\<^verbatim>\<open>LufsProcessor\<close>) and the crossover filter unit
    (\<^verbatim>\<open>CrossoverFilter\<close>) are external: the readings a tick takes are an argument of the
    tick, \<^verbatim>\<open>reset()\<close> is counted, and \<^verbatim>\<open>applyFilter\<close> is a parameter of the router.
\<close>

subsection \<open>Constants\<close>

definition CALLBACK_TIMER_PERIOD_MS :: real where
  "CALLBACK_TIMER_PERIOD_MS = 10"

definition LOWEST_TRUE_PEAK_VALUE :: real where
  "LOWEST_TRUE_PEAK_VALUE = -125"

definition LOWEST_LUFS_VALUE :: real where
  "LOWEST_LUFS_VALUE = -64"

definition HIGHEST_TRUE_PEAK_VALUE :: real where
  "HIGHEST_TRUE_PEAK_VALUE = 3"

type_synonym byte = "8 word"

definition sysexManufacturerId :: "byte list" where
  "sysexManufacturerId = [0x00, 0x21, 0x69]"

definition SYSEX_COMMAND_METER_DATA :: byte where
  "SYSEX_COMMAND_METER_DATA = 1"

definition SYSEX_COMMAND_SYNC_BUTTONS :: byte where
  "SYSEX_COMMAND_SYNC_BUTTONS = 2"

text \<open>The button note numbers of \<^verbatim>\<open>enum midiNoteCommand\<close>.\<close>

definition BUTTON_LOUD :: nat where "BUTTON_LOUD = 0"
definition BUTTON_MONO :: nat where "BUTTON_MONO = 1"
definition BUTTON_SIDE :: nat where "BUTTON_SIDE = 2"
definition BUTTON_LOW :: nat where "BUTTON_LOW = 3"
definition BUTTON_LOMID :: nat where "BUTTON_LOMID = 4"
definition BUTTON_HIMID :: nat where "BUTTON_HIMID = 5"
definition BUTTON_HIGH :: nat where "BUTTON_HIGH = 6"
definition BUTTON_MONMUTE :: nat where "BUTTON_MONMUTE = 18"
definition BUTTON_DIM :: nat where "BUTTON_DIM = 19"
definition BUTTON_REF :: nat where "BUTTON_REF = 20"
definition BUTTON_RESET_METER :: nat where "BUTTON_RESET_METER = 35"
definition BUTTON_PEAK_LUFS :: nat where "BUTTON_PEAK_LUFS = 36"
definition BUTTON_ABS_REL :: nat where "BUTTON_ABS_REL = 37"
definition BUTTON_VOL_MOD :: nat where "BUTTON_VOL_MOD = 45"
definition BUTTON_3RD_METER_IS_MOMENTARY :: nat where "BUTTON_3RD_METER_IS_MOMENTARY = 46"
definition BUTTON_1DB_PEAK_SCALE :: nat where "BUTTON_1DB_PEAK_SCALE = 47"

lemmas button_defs =
  BUTTON_LOUD_def BUTTON_MONO_def BUTTON_SIDE_def BUTTON_LOW_def BUTTON_LOMID_def
  BUTTON_HIMID_def BUTTON_HIGH_def BUTTON_MONMUTE_def BUTTON_DIM_def BUTTON_REF_def
  BUTTON_RESET_METER_def BUTTON_PEAK_LUFS_def BUTTON_ABS_REL_def BUTTON_VOL_MOD_def
  BUTTON_3RD_METER_IS_MOMENTARY_def BUTTON_1DB_PEAK_SCALE_def

subsection \<open>Parameters and processor state\<close>

text \<open>
  The sixteen \<^verbatim>\<open>AudioParameterBoolNotify\<close> objects the constructor registers, named after
  the member that points to each (\<^verbatim>\<open>bandSolo[0]\<close> .. \<^verbatim>\<open>bandSolo[3]\<close> for the vector).
\<close>

datatype param =
    muteMode | dimMode | refMode
  | bandSolo0 | bandSolo1 | bandSolo2 | bandSolo3
  | midSolo | sideSolo | loudnessMode
  | lufsReset | lufsMode | peakWithMomentaryMode | relativeMode | is1dbPeakScale
  | volModMode

text \<open>The \<^verbatim>\<open>paramID\<close> string each one is constructed with.\<close>

fun paramID :: "param \<Rightarrow> string" where
  "paramID muteMode = ''muteMode''"
| "paramID dimMode = ''dimMode''"
| "paramID refMode = ''refMode''"
| "paramID bandSolo0 = ''solo1''"
| "paramID bandSolo1 = ''solo2''"
| "paramID bandSolo2 = ''solo3''"
| "paramID bandSolo3 = ''solo4''"
| "paramID midSolo = ''midSolo''"
| "paramID sideSolo = ''sideSolo''"
| "paramID loudnessMode = ''loudMode''"
| "paramID lufsReset = ''lufsReset''"
| "paramID lufsMode = ''lufsMode''"
| "paramID peakWithMomentaryMode = ''peakWithMomentaryMode''"
| "paramID relativeMode = ''relativeMode''"
| "paramID is1dbPeakScale = ''is1dbPeakScale''"
| "paramID volModMode = ''volModMode''"

text \<open>
  \<^verbatim>\<open>getParameters()\<close> in registration order, restricted to the entries for which the
  \<^verbatim>\<open>dynamic_cast<AudioParameterBoolNotify*>\<close> of the callback succeeds.
\<close>

definition getParameters :: "param list" where
  "getParameters =
     [muteMode, dimMode, refMode, bandSolo0, bandSolo1, bandSolo2, bandSolo3,
      midSolo, sideSolo, loudnessMode, lufsReset, lufsMode, peakWithMomentaryMode,
      relativeMode, is1dbPeakScale, volModMode]"

text \<open>The vector \<^verbatim>\<open>bandSolo\<close> (size \<^verbatim>\<open>numCrossovers + 1 = 4\<close>).\<close>

definition bandSolo :: "param list" where
  "bandSolo = [bandSolo0, bandSolo1, bandSolo2, bandSolo3]"

text \<open>
  \<^verbatim>\<open>button_param_map\<close>, a \<^verbatim>\<open>std::map\<close>: iteration is in ascending key order, which is
  the order of this association list.
\<close>

definition button_param_map :: "(nat \<times> param) list" where
  "button_param_map =
     [(BUTTON_LOUD, loudnessMode), (BUTTON_MONO, midSolo), (BUTTON_SIDE, sideSolo),
      (BUTTON_LOW, bandSolo0), (BUTTON_LOMID, bandSolo1), (BUTTON_HIMID, bandSolo2),
      (BUTTON_HIGH, bandSolo3), (BUTTON_MONMUTE, muteMode), (BUTTON_DIM, dimMode),
      (BUTTON_REF, refMode), (BUTTON_RESET_METER, lufsReset), (BUTTON_PEAK_LUFS, lufsMode),
      (BUTTON_ABS_REL, relativeMode), (BUTTON_VOL_MOD, volModMode),
      (BUTTON_3RD_METER_IS_MOMENTARY, peakWithMomentaryMode),
      (BUTTON_1DB_PEAK_SCALE, is1dbPeakScale)]"

text \<open>
  Outbound MIDI messages: \<^verbatim>\<open>MidiMessage::noteOn(channel, note, velocity)\<close> with a float
  velocity, and \<^verbatim>\<open>MidiMessage::createSysExMessage(data, size)\<close> carrying the data bytes
  it is given (the framing bytes F0 and F7 that the call adds are not part of the value).
\<close>

datatype midi_message =
    NoteOn nat nat real
  | SysEx "byte list"

datatype error = NullPointerDereference

text \<open>
  The processor's members. \<open>boolValue\<close> is the current value of each notifying boolean
  parameter; \<open>lufsResets\<close> counts the calls of \<^verbatim>\<open>lufsProcessor->reset()\<close>;
  \<open>midiOutput\<close> is \<open>None\<close> for the null pointer and otherwise holds the messages sent so
  far, oldest first. The float meter parameters hold the normalised value last handed to
  their \<^verbatim>\<open>setValueNotifyingHost\<close>; \<open>lufsTarget\<close> and \<open>peakHoldSeconds\<close> hold what
  \<^verbatim>\<open>get()\<close> returns.
\<close>

record processor =
  boolValue :: "param \<Rightarrow> bool"
  lufsResets :: nat
  midiOutput :: "midi_message list option"
  msSinceLastPeakReset :: real
  lastMaxLeft :: real
  lastMaxRight :: real
  lufsShort :: real
  lufsMomentary :: real
  lufsIntegrated :: real
  lufsRangeMin :: real
  lufsRangeMax :: real
  peakMeterLeft :: real
  peakMeterRight :: real
  peakMeterMaxLeft :: real
  peakMeterMaxRight :: real
  clipMeterLeft :: bool
  clipMeterRight :: bool
  lufsTarget :: real
  peakHoldSeconds :: real

subsection \<open>The mode-change callback\<close>

definition lufsProcessor_reset :: "processor \<Rightarrow> processor" where
  "lufsProcessor_reset s = s\<lparr>lufsResets := Suc (lufsResets s)\<rparr>"

text \<open>\<^verbatim>\<open>midiOutput->sendMessageNow(m)\<close>: a null \<^verbatim>\<open>midiOutput\<close> is dereferenced.\<close>

definition sendMessageNow :: "midi_message \<Rightarrow> processor \<Rightarrow> error + processor" where
  "sendMessageNow m s =
     (case midiOutput s of
        None \<Rightarrow> Inl NullPointerDereference
      | Some sent \<Rightarrow> Inr (s\<lparr>midiOutput := Some (sent @ [m])\<rparr>))"

text \<open>The inner loop of the button search: the first key of the map bound to \<open>p\<close>.\<close>

fun findKey :: "(nat \<times> param) list \<Rightarrow> param \<Rightarrow> nat option" where
  "findKey [] p = None"
| "findKey (keyval # rest) p = (if snd keyval = p then Some (fst keyval) else findKey rest p)"

text \<open>
  The outer loop: over the parameters whose \<^verbatim>\<open>paramID\<close> equals \<open>paramName\<close>; the
  \<^verbatim>\<open>goto found_button\<close> leaves both loops at the first hit, and \<open>button\<close> keeps its
  initial value 0 when there is none.
\<close>

fun findButton :: "param list \<Rightarrow> string \<Rightarrow> nat" where
  "findButton [] paramName = 0"
| "findButton (p # ps) paramName =
     (if paramID p = paramName then
        (case findKey button_param_map p of
           Some button \<Rightarrow> button
         | None \<Rightarrow> findButton ps paramName)
      else findButton ps paramName)"

text \<open>
  \<open>modeChangedFunction\<close> is the lambda of the constructor (lines 111-151), handed to
  every \<^verbatim>\<open>AudioParameterBoolNotify\<close> as its change callback. It writes other
  parameters through their \<^verbatim>\<open>setValueNotifyingHost\<close>, which runs the callback again, so
  the two are defined together. The inner runs have a new value of false and write no
  further parameter, which is why the recursion ends.
\<close>

text \<open>
  Modelled from the spec: \<open>setValueNotifyingHost\<close> of an \<^verbatim>\<open>AudioParameterBoolNotify\<close>.
  The class is declared in PluginProcessor.h, which is not among the sources. The spec's
  data model gives a Parameter "a current value, and an optional change-notification
  callback fired on externally- or internally-driven writes": the write stores the value,
  then runs the callback with the parameter's id and the new value.
\<close>

function modeChangedFunction :: "string \<Rightarrow> bool \<Rightarrow> processor \<Rightarrow> error + processor"
  and setValueNotifyingHost :: "param \<Rightarrow> bool \<Rightarrow> processor \<Rightarrow> error + processor"
where
  "modeChangedFunction paramName newValue s =
     (let s1 = (if paramName \<noteq> ''dimMode'' \<and> paramName \<noteq> ''refMode''
                   \<and> paramName \<noteq> ''muteMode'' \<and> paramName \<noteq> ''volModMode''
                then lufsProcessor_reset s else s)
      in case (if newValue \<and> paramName = ''midSolo''
               then setValueNotifyingHost sideSolo False s1 else Inr s1) of
           Inl e \<Rightarrow> Inl e
         | Inr s2 \<Rightarrow>
      (case (if newValue \<and> paramName = ''sideSolo''
             then setValueNotifyingHost midSolo False s2 else Inr s2) of
           Inl e \<Rightarrow> Inl e
         | Inr s3 \<Rightarrow>
      (case (if newValue \<and> paramName = ''dimMode''
             then setValueNotifyingHost refMode False s3 else Inr s3) of
           Inl e \<Rightarrow> Inl e
         | Inr s4 \<Rightarrow>
      (case (if newValue \<and> paramName = ''refMode''
             then setValueNotifyingHost dimMode False s4 else Inr s4) of
           Inl e \<Rightarrow> Inl e
         | Inr s5 \<Rightarrow>
             sendMessageNow
               (NoteOn 1 (findButton getParameters paramName) (if newValue then 1 else 0))
               s5))))"
| "setValueNotifyingHost p v s =
     modeChangedFunction (paramID p) v (s\<lparr>boolValue := (boolValue s)(p := v)\<rparr>)"
  by pat_completeness auto
termination
  by (relation "measure (\<lambda>x. case x of
          Inl (paramName, newValue, s) \<Rightarrow> (if newValue then 2 else 0)
        | Inr (p, v, s) \<Rightarrow> (if v then 3 else 1))")
     auto


declare modeChangedFunction.simps [simp del] setValueNotifyingHost.simps [simp del]

subsection \<open>The constructor\<close>

text \<open>
  The state the constructor leaves: every notifying boolean parameter at its default 0, the
  float meter parameters at their normalised defaults (0 dB in a range ending at 0 dB is 1;
  0 dB in the true-peak range from -125 to 3 is 125/128), the loudness target at -16 and
  the peak hold at 5 seconds. \<open>outputOpened\<close> says whether the output port was found.
  The constructor gives \<^verbatim>\<open>lastMaxLeft\<close> and \<^verbatim>\<open>lastMaxRight\<close> no value; the two
  arguments \<open>l\<close> and \<open>r\<close> stand for whatever they hold.
\<close>

definition DreamControlAudioProcessor :: "bool \<Rightarrow> real \<Rightarrow> real \<Rightarrow> processor" where
  "DreamControlAudioProcessor outputOpened l r =
     \<lparr>boolValue = (\<lambda>p. False),
      lufsResets = 0,
      midiOutput = (if outputOpened then Some [] else None),
      msSinceLastPeakReset = 0,
      lastMaxLeft = l,
      lastMaxRight = r,
      lufsShort = 1,
      lufsMomentary = 1,
      lufsIntegrated = 1,
      lufsRangeMin = 1,
      lufsRangeMax = 1,
      peakMeterLeft = 125 / 128,
      peakMeterRight = 125 / 128,
      peakMeterMaxLeft = 125 / 128,
      peakMeterMaxRight = 125 / 128,
      clipMeterLeft = False,
      clipMeterRight = False,
      lufsTarget = -16,
      peakHoldSeconds = 5\<rparr>"

subsection \<open>The MIDI input handler\<close>

text \<open>
  An incoming message, as far as the handler looks at it: a SysEx message with its data
  bytes, a note-on with note number and velocity, or anything else.
\<close>

datatype incoming_message =
    SysExIn "byte list"
  | NoteOnIn nat nat
  | OtherIn

text \<open>
  \<^verbatim>\<open>data[0]\<close> of \<^verbatim>\<open>getSysExData()\<close>: the first data byte, or the terminating 0xF7 of
  a SysEx message without data.
\<close>

definition sysExData0 :: "byte list \<Rightarrow> byte" where
  "sysExData0 data = (case data of [] \<Rightarrow> 0xF7 | b # rest \<Rightarrow> b)"

text \<open>The loop that sends every button value out, in the map's key order.\<close>

fun sendAllButtons :: "(nat \<times> param) list \<Rightarrow> processor \<Rightarrow> error + processor" where
  "sendAllButtons [] s = Inr s"
| "sendAllButtons (p # ps) s =
     (case sendMessageNow (NoteOn 1 (fst p) (if boolValue s (snd p) then 1 else 0)) s of
        Inl e \<Rightarrow> Inl e
      | Inr s' \<Rightarrow> sendAllButtons ps s')"

definition handleIncomingMidiMessage :: "incoming_message \<Rightarrow> processor \<Rightarrow> error + processor" where
  "handleIncomingMidiMessage m s =
     (case m of
        SysExIn data \<Rightarrow>
          (if sysExData0 data = SYSEX_COMMAND_SYNC_BUTTONS
           then sendAllButtons button_param_map s
           else Inr s)
      | NoteOnIn button velocity \<Rightarrow>
          (if velocity = 127 then
             (case map_of button_param_map button of
                Some p \<Rightarrow> setValueNotifyingHost p (\<not> boolValue s p) s
              | None \<Rightarrow> Inr s)
           else Inr s)
      | OtherIn \<Rightarrow> Inr s)"

subsection \<open>The telemetry byte pair\<close>

text \<open>\<^verbatim>\<open>modf\<close>: the integral part has the sign of the argument (truncation towards zero).\<close>

definition modf_integral :: "real \<Rightarrow> real" where
  "modf_integral val = (if 0 \<le> val then of_int \<lfloor>val\<rfloor> else of_int \<lceil>val\<rceil>)"

text \<open>\<^verbatim>\<open>roundf\<close>: to the nearest integer, halfway cases away from zero.\<close>

definition roundf :: "real \<Rightarrow> real" where
  "roundf x = (if 0 \<le> x then of_int \<lfloor>x + 1 / 2\<rfloor> else of_int \<lceil>x - 1 / 2\<rceil>)"

text \<open>The cast \<^verbatim>\<open>(char)\<close> of a float: the fraction is dropped, the low 8 bits are kept.\<close>

definition char_of_float :: "real \<Rightarrow> byte" where
  "char_of_float x = word_of_int (if 0 \<le> x then \<lfloor>x\<rfloor> else \<lceil>x\<rceil>)"

text \<open>
  The narrowing of a double to a float, which the call \<^verbatim>\<open>roundf(fractional * 100.0)\<close>
  applies to its argument: the nearest value with a 24-bit significand, ties to the even
  significand. \<open>binade a\<close> is the largest power of two not above \<open>a\<close> within the exponents
  of the normal floats, from \<open>2^-126\<close> to \<open>2^127\<close>; for smaller \<open>a\<close> it is \<open>2^-126\<close>, whose
  spacing the subnormal floats share. The search doubles or halves from 1, at most 127
  and 126 times. Magnitudes beyond the largest float are outside the model.
\<close>

fun binade_up :: "nat \<Rightarrow> real \<Rightarrow> real \<Rightarrow> real" where
  "binade_up 0 b a = b"
| "binade_up (Suc n) b a = (if 2 * b \<le> a then binade_up n (2 * b) a else b)"

fun binade_down :: "nat \<Rightarrow> real \<Rightarrow> real \<Rightarrow> real" where
  "binade_down 0 b a = b"
| "binade_down (Suc n) b a = (if a < b then binade_down n (b / 2) a else b)"

definition binade :: "real \<Rightarrow> real" where
  "binade a = (if 1 \<le> a then binade_up 127 1 a else binade_down 126 1 a)"

definition round_to_even :: "real \<Rightarrow> int" where
  "round_to_even z =
     (let f = \<lfloor>z\<rfloor>; d = z - of_int f
      in if d < 1 / 2 then f
         else if 1 / 2 < d then f + 1
         else if even f then f else f + 1)"

definition to_float :: "real \<Rightarrow> real" where
  "to_float x =
     (let ulp = binade \<bar>x\<bar> / 2 ^ 23
      in of_int (round_to_even (x / ulp)) * ulp)"

text \<open>
  The two bytes \<^verbatim>\<open>output[0]\<close> and \<^verbatim>\<open>output[1]\<close>, as a pair. \<^verbatim>\<open>modf\<close>, \<^verbatim>\<open>abs\<close>
  and the comparisons are exact on floats. The product \<^verbatim>\<open>fractional * 100.0\<close> is a double
  product of a float of 24 significant bits and 100, which is exact in double; only its
  narrowing to the float argument of \<^verbatim>\<open>roundf\<close> rounds.
\<close>

definition getMeterIntegralFractional :: "real \<Rightarrow> byte \<times> byte" where
  "getMeterIntegralFractional val =
     (let integral0 = modf_integral val;
          fractional0 = val - integral0;
          fractional1 = \<bar>roundf (to_float (fractional0 * 100))\<bar>;
          integral1 = \<bar>integral0\<bar>;
          fractional = (if fractional1 > 99 then 99 else fractional1);
          integral = (if integral1 > 99 then 99 else integral1)
      in (char_of_float integral, char_of_float fractional))"

text \<open>
  The encoding in the words of the specification: the integral byte is \<open>|trunc(value)|\<close>
  clamped to 0..99, the fractional byte is \<open>round(|frac(value)| * 100)\<close> clamped to 0..99,
  where \<open>trunc\<close> drops the fraction and \<open>frac\<close> is what it drops.
\<close>

definition spec_trunc :: "real \<Rightarrow> int" where
  "spec_trunc v = (if 0 \<le> v then \<lfloor>v\<rfloor> else \<lceil>v\<rceil>)"

definition spec_frac :: "real \<Rightarrow> real" where
  "spec_frac v = v - of_int (spec_trunc v)"

definition spec_clamp :: "int \<Rightarrow> int \<Rightarrow> int \<Rightarrow> int" where
  "spec_clamp lo hi x = max lo (min hi x)"

definition spec_integral :: "real \<Rightarrow> int" where
  "spec_integral v = spec_clamp 0 99 \<bar>spec_trunc v\<bar>"

definition spec_fractional :: "real \<Rightarrow> int" where
  "spec_fractional v = spec_clamp 0 99 (round (\<bar>spec_frac v\<bar> * 100))"

subsection \<open>The timer callback\<close>

text \<open>
  What one tick reads from the measurement unit: the last valid entries of the short-term,
  momentary and integrated loudness arrays, the loudness range bounds, and the last valid
  entries of the two true-peak arrays as they are when lines 535-536 read them.
\<close>

record meter_readings =
  lufsSval :: real
  lufsMval :: real
  lufsIval :: real
  lufsMinVal :: real
  lufsMaxVal :: real
  truePeakL :: real
  truePeakR :: real

text \<open>The initialiser of \<^verbatim>\<open>sysexData[]\<close> (lines 564-597).\<close>

definition sysexData :: "meter_readings \<Rightarrow> real \<Rightarrow> real \<Rightarrow> processor \<Rightarrow> byte list" where
  "sysexData m peakLval peakRval s =
     (let lufsSints = getMeterIntegralFractional (lufsSval m);
          lufsMints = getMeterIntegralFractional (lufsMval m);
          lufsIints = getMeterIntegralFractional (lufsIval m);
          lufsMinInts = getMeterIntegralFractional (lufsMinVal m);
          lufsMaxInts = getMeterIntegralFractional (lufsMaxVal m);
          lufsRangeVal = lufsMaxVal m - lufsMinVal m;
          lufsRangeInts = getMeterIntegralFractional lufsRangeVal;
          lufsTargetVal = getMeterIntegralFractional (lufsTarget s);
          peakLints = getMeterIntegralFractional peakLval;
          peakRints = getMeterIntegralFractional peakRval;
          lastMaxLeftInts = getMeterIntegralFractional (lastMaxLeft s);
          lastMaxRightInts = getMeterIntegralFractional (lastMaxRight s);
          lastMaxTotalVal =
            (if lastMaxLeft s > lastMaxRight s then lastMaxLeft s else lastMaxRight s);
          lastMaxTotalInts = getMeterIntegralFractional lastMaxTotalVal
      in [sysexManufacturerId ! 0, sysexManufacturerId ! 1, sysexManufacturerId ! 2,
          SYSEX_COMMAND_METER_DATA,
          fst lufsSints, snd lufsSints,
          fst lufsMints, snd lufsMints,
          fst lufsIints, snd lufsIints,
          fst lufsMinInts, snd lufsMinInts,
          fst lufsMaxInts, snd lufsMaxInts,
          fst lufsRangeInts, snd lufsRangeInts,
          fst lufsTargetVal, snd lufsTargetVal,
          fst peakLints, snd peakLints,
          fst peakRints, snd peakRints,
          fst lastMaxLeftInts, snd lastMaxLeftInts,
          fst lastMaxRightInts, snd lastMaxRightInts,
          fst lastMaxTotalInts, snd lastMaxTotalInts,
          (if peakLval + HIGHEST_TRUE_PEAK_VALUE > 0 then 1 else 0),
          (if peakRval + HIGHEST_TRUE_PEAK_VALUE > 0 then 1 else 0)])"

text \<open>Lines 510-531: the loudness parameters and the reset trigger.\<close>

definition lufsMeter :: "meter_readings \<Rightarrow> processor \<Rightarrow> error + processor" where
  "lufsMeter m s =
     (let s1 = s\<lparr>
            lufsShort :=
              ((if lufsSval m \<ge> LOWEST_LUFS_VALUE then lufsSval m else LOWEST_LUFS_VALUE)
                 - LOWEST_LUFS_VALUE) / - LOWEST_LUFS_VALUE,
            lufsMomentary :=
              ((if lufsMval m \<ge> LOWEST_LUFS_VALUE then lufsMval m else LOWEST_LUFS_VALUE)
                 - LOWEST_LUFS_VALUE) / - LOWEST_LUFS_VALUE,
            lufsIntegrated :=
              ((if lufsIval m \<ge> LOWEST_LUFS_VALUE then lufsIval m else LOWEST_LUFS_VALUE)
                 - LOWEST_LUFS_VALUE) / - LOWEST_LUFS_VALUE,
            lufsRangeMin :=
              ((if lufsMinVal m \<ge> LOWEST_LUFS_VALUE then lufsMinVal m else LOWEST_LUFS_VALUE)
                 - LOWEST_LUFS_VALUE) / - LOWEST_LUFS_VALUE,
            lufsRangeMax :=
              ((if lufsMaxVal m \<ge> LOWEST_LUFS_VALUE then lufsMaxVal m else LOWEST_LUFS_VALUE)
                 - LOWEST_LUFS_VALUE) / - LOWEST_LUFS_VALUE\<rparr>
      in if boolValue s1 lufsReset = True then
           (case setValueNotifyingHost lufsReset False s1 of
              Inl e \<Rightarrow> Inl e
            | Inr s2 \<Rightarrow> Inr ((lufsProcessor_reset s2)\<lparr>msSinceLastPeakReset := 0\<rparr>))
         else Inr s1)"

text \<open>
  Lines 533-558: the true-peak parameters, the held peaks and the hold timer. The float
  subtraction and addition of the 3 dB ceiling are taken as exact, as they are for every
  reading of the examples below; the code rounds a reading nearer to 0 than the float
  spacing at 3 (about \<open>2^-22\<close>) to the ceiling itself.
\<close>

definition truePeakMeter :: "meter_readings \<Rightarrow> processor \<Rightarrow> processor" where
  "truePeakMeter m s =
     (let truePeakRange = LOWEST_TRUE_PEAK_VALUE - HIGHEST_TRUE_PEAK_VALUE;
          peakLval = truePeakL m - HIGHEST_TRUE_PEAK_VALUE;
          peakRval = truePeakR m - HIGHEST_TRUE_PEAK_VALUE;
          s1 = s\<lparr>
            peakMeterLeft :=
              ((if peakLval \<ge> truePeakRange then peakLval else truePeakRange)
                 - truePeakRange) / - truePeakRange,
            peakMeterRight :=
              ((if peakRval \<ge> truePeakRange then peakRval else truePeakRange)
                 - truePeakRange) / - truePeakRange\<rparr>;
          peakHold = peakHoldSeconds s1;
          s2 = (if peakHold = 0 \<or> msSinceLastPeakReset s1 \<ge> peakHold * 1000
                   \<or> peakLval > lastMaxLeft s1
                then s1\<lparr>
                  peakMeterMaxLeft :=
                    ((if peakLval \<ge> truePeakRange then peakLval else truePeakRange)
                       - truePeakRange) / - truePeakRange,
                  clipMeterLeft := (peakLval + HIGHEST_TRUE_PEAK_VALUE > 0),
                  lastMaxLeft := peakLval\<rparr>
                else s1);
          s3 = (if peakHold = 0 \<or> msSinceLastPeakReset s2 \<ge> peakHold * 1000
                   \<or> peakRval > lastMaxRight s2
                then s2\<lparr>
                  peakMeterMaxRight :=
                    ((if peakRval \<ge> truePeakRange then peakRval else truePeakRange)
                       - truePeakRange) / - truePeakRange,
                  clipMeterRight := (peakRval + HIGHEST_TRUE_PEAK_VALUE > 0),
                  lastMaxRight := peakRval\<rparr>
                else s2);
          s4 = (if peakHold = 0 \<or> msSinceLastPeakReset s3 \<ge> peakHold * 1000
                then s3\<lparr>msSinceLastPeakReset := 0\<rparr> else s3);
          s5 = (if peakHold > 0
                then s4\<lparr>msSinceLastPeakReset :=
                          msSinceLastPeakReset s4 + CALLBACK_TIMER_PERIOD_MS\<rparr>
                else s4)
      in s5)"

text \<open>
  Lines 560-601: the SysEx packet with the meter values, behind the null check. The
  subtraction of the ceiling is exact here as above.
\<close>

definition sendMeterData :: "meter_readings \<Rightarrow> processor \<Rightarrow> error + processor" where
  "sendMeterData m s =
     (let peakLval = truePeakL m - HIGHEST_TRUE_PEAK_VALUE;
          peakRval = truePeakR m - HIGHEST_TRUE_PEAK_VALUE
      in if midiOutput s \<noteq> None
         then sendMessageNow (SysEx (sysexData m peakLval peakRval s)) s
         else Inr s)"

text \<open>
  The callback executed every 10 ms. Its last statement, the refresh of the crossover
  filter coefficients, touches nothing modelled here.
\<close>

definition hiResTimerCallback :: "meter_readings \<Rightarrow> processor \<Rightarrow> error + processor" where
  "hiResTimerCallback m s =
     (case lufsMeter m s of
        Inl e \<Rightarrow> Inl e
      | Inr s1 \<Rightarrow> sendMeterData m (truePeakMeter m s1))"


text \<open>
  The normalisation in the words of the specification:
  \<open>normalized = (clamp(value, floor) - floor) / (-floor)\<close>.
\<close>

definition spec_normalized :: "real \<Rightarrow> real \<Rightarrow> real" where
  "spec_normalized floor_value v = (max v floor_value - floor_value) / (- floor_value)"


subsection \<open>The band solo router\<close>

definition numCrossovers :: nat where
  "numCrossovers = 3"

definition numBands :: nat where
  "numBands = numCrossovers + 1"

text \<open>\<^verbatim>\<open>isAnyBandSolo\<close>: the loop over \<^verbatim>\<open>bandSolo\<close>, from index \<open>b\<close> on.\<close>

function isAnyBandSolo_from :: "processor \<Rightarrow> nat \<Rightarrow> bool" where
  "isAnyBandSolo_from s b =
     (if b < length bandSolo then
        (if boolValue s (bandSolo ! b) = True then True else isAnyBandSolo_from s (b + 1))
      else False)"
  by pat_completeness auto
termination
  by (relation "measure (\<lambda>(s, b). length bandSolo - b)") auto

declare isAnyBandSolo_from.simps [simp del]

definition isAnyBandSolo :: "processor \<Rightarrow> bool" where
  "isAnyBandSolo s = isAnyBandSolo_from s 0"

text \<open>
  The router works on one channel of samples at a time. A crossover filter is an opaque
  value \<open>'f\<close>; \<open>applyFilter f source\<close> gives the filtered samples and the filter after
  the call. The three loops of lines 427-453 follow, innermost first. Each threads the
  scratch buffer \<open>chanBuffer\<close>, the filters of the channel and \<open>filtIndex\<close>. An index
  beyond the filters of a channel is undefined behaviour in the source and unspecified
  here; with the twelve filters per channel that \<^verbatim>\<open>prepareToPlay\<close> allocates it does not
  occur.
\<close>

function filterLoop ::
  "('f \<Rightarrow> real list \<Rightarrow> real list \<times> 'f) \<Rightarrow> real list \<Rightarrow> nat \<Rightarrow> nat
     \<Rightarrow> real list \<times> 'f list \<times> nat \<Rightarrow> real list \<times> 'f list \<times> nat" where
  "filterLoop applyFilter inputChan filtCount i (chanBuffer, filters, filtIndex) =
     (if i < filtCount then
        (let sourcePointer = (if i = 0 then inputChan else chanBuffer);
             (filtered, f') = applyFilter (filters ! filtIndex) sourcePointer
         in filterLoop applyFilter inputChan filtCount (i + 1)
              (filtered, filters[filtIndex := f'], filtIndex + 1))
      else (chanBuffer, filters, filtIndex))"
  by pat_completeness auto
termination
  by (relation "measure (\<lambda>(a, inp, filtCount, i, st). filtCount - i)") auto

declare filterLoop.simps [simp del]

function bandLoop ::
  "('f \<Rightarrow> real list \<Rightarrow> real list \<times> 'f) \<Rightarrow> processor \<Rightarrow> real list \<Rightarrow> nat
     \<Rightarrow> real list \<times> real list \<times> 'f list \<times> nat
     \<Rightarrow> real list \<times> real list \<times> 'f list \<times> nat" where
  "bandLoop applyFilter s inputChan band (outChan, chanBuffer, filters, filtIndex) =
     (if band < numBands then
        (let filtCount = (if band > 0 \<and> band < numBands - 1 then 4 else 2)
         in if boolValue s (bandSolo ! band) = False then
              bandLoop applyFilter s inputChan (band + 1)
                (outChan, chanBuffer, filters, filtIndex + filtCount)
            else
              (let (chanBuffer', filters', filtIndex') =
                     filterLoop applyFilter inputChan filtCount 0
                       (chanBuffer, filters, filtIndex);
                   outChan' = map2 (+) outChan chanBuffer'
               in bandLoop applyFilter s inputChan (band + 1)
                    (outChan', chanBuffer', filters', filtIndex')))
      else (outChan, chanBuffer, filters, filtIndex))"
  by pat_completeness auto
termination
  by (relation "measure (\<lambda>(a, s, inp, band, st). numBands - band)") auto

declare bandLoop.simps [simp del]

function chanLoop ::
  "('f \<Rightarrow> real list \<Rightarrow> real list \<times> 'f) \<Rightarrow> processor \<Rightarrow> real list list \<Rightarrow> nat \<Rightarrow> nat
     \<Rightarrow> real list list \<times> real list \<times> 'f list list
     \<Rightarrow> real list list \<times> real list \<times> 'f list list" where
  "chanLoop applyFilter s inputBuffer numInputChannels chan
       (buffer, chanBuffer, crossoverFilters) =
     (if chan < numInputChannels then
        (let (outChan, chanBuffer', filters', filtIndex') =
               bandLoop applyFilter s (inputBuffer ! chan) 0
                 (buffer ! chan, chanBuffer, crossoverFilters ! chan, 0)
         in chanLoop applyFilter s inputBuffer numInputChannels (chan + 1)
              (buffer[chan := outChan], chanBuffer', crossoverFilters[chan := filters']))
      else (buffer, chanBuffer, crossoverFilters))"
  by pat_completeness auto
termination
  by (relation "measure (\<lambda>(a, s, inp, n, chan, st). n - chan)") auto

declare chanLoop.simps [simp del]

text \<open>
  Lines 417-454 of \<^verbatim>\<open>processBlock\<close>: the buffer (one sample list per channel) and the
  crossover filters before and after. \<open>scratch\<close> is the content of the freshly allocated
  \<^verbatim>\<open>chanBuffer\<close>.
\<close>

definition bandSoloRouter ::
  "('f \<Rightarrow> real list \<Rightarrow> real list \<times> 'f) \<Rightarrow> processor \<Rightarrow> nat \<Rightarrow> real list
     \<Rightarrow> real list list \<times> 'f list list \<Rightarrow> real list list \<times> 'f list list" where
  "bandSoloRouter applyFilter s numInputChannels scratch st =
     (case st of (buffer, crossoverFilters) \<Rightarrow>
        if isAnyBandSolo s then
          (let inputBuffer = buffer;
               cleared = map (map (\<lambda>x. 0)) buffer;
               (buffer', chanBuffer', crossoverFilters') =
                 chanLoop applyFilter s inputBuffer numInputChannels 0
                   (cleared, scratch, crossoverFilters)
           in (buffer', crossoverFilters'))
        else (buffer, crossoverFilters))"


subsection \<open>Example inputs\<close>

text \<open>
  Readings of one tick used in the examples: fixed loudness values and the given true-peak
  readings of the left and right channel.
\<close>

definition exampleReadings :: "real \<Rightarrow> real \<Rightarrow> meter_readings" where
  "exampleReadings l r =
     \<lparr>lufsSval = - 237 / 10, lufsMval = - 41 / 2, lufsIval = - 24,
      lufsMinVal = - 121 / 4, lufsMaxVal = - 75 / 4,
      truePeakL = l, truePeakR = r\<rparr>"

section \<open>Properties\<close>

subsection \<open>The mode-change callback, unfolded\<close>

lemma modeChanged_False:
  "modeChangedFunction paramName False s =
     sendMessageNow (NoteOn 1 (findButton getParameters paramName) 0)
       (if paramName \<noteq> ''dimMode'' \<and> paramName \<noteq> ''refMode''
           \<and> paramName \<noteq> ''muteMode'' \<and> paramName \<noteq> ''volModMode''
        then lufsProcessor_reset s else s)"
  by (simp add: modeChangedFunction.simps Let_def)

lemma setValue_False:
  "setValueNotifyingHost p False s =
     sendMessageNow (NoteOn 1 (findButton getParameters (paramID p)) 0)
       (if paramID p \<noteq> ''dimMode'' \<and> paramID p \<noteq> ''refMode''
           \<and> paramID p \<noteq> ''muteMode'' \<and> paramID p \<noteq> ''volModMode''
        then lufsProcessor_reset (s\<lparr>boolValue := (boolValue s)(p := False)\<rparr>)
        else s\<lparr>boolValue := (boolValue s)(p := False)\<rparr>)"
  by (simp add: modeChanged_False setValueNotifyingHost.simps)

text \<open>With a null output the callback always ends in the dereference.\<close>

lemma modeChanged_null:
  "midiOutput s = None \<Longrightarrow>
     modeChangedFunction paramName newValue s = Inl NullPointerDereference"
  by (cases newValue)
     (simp_all add: modeChangedFunction.simps[of _ True] modeChanged_False setValue_False
        sendMessageNow_def lufsProcessor_reset_def Let_def)

text \<open>
  With an open output the callback returns; the state it returns, for a new value of
  true and of false.
\<close>

lemma modeChanged_True_open:
  assumes "midiOutput s = Some sent"
  shows "modeChangedFunction paramName True s =
     Inr (s\<lparr>lufsResets := lufsResets s +
               (if paramName = ''midSolo'' \<or> paramName = ''sideSolo'' then 2
                else if paramName = ''dimMode'' \<or> paramName = ''refMode''
                        \<or> paramName = ''muteMode'' \<or> paramName = ''volModMode''
                then 0 else 1),
            boolValue :=
               (if paramName = ''midSolo'' then (boolValue s)(sideSolo := False)
                else if paramName = ''sideSolo'' then (boolValue s)(midSolo := False)
                else if paramName = ''dimMode'' then (boolValue s)(refMode := False)
                else if paramName = ''refMode'' then (boolValue s)(dimMode := False)
                else boolValue s),
            midiOutput := Some (sent @
               (if paramName = ''midSolo'' then [NoteOn 1 BUTTON_SIDE 0]
                else if paramName = ''sideSolo'' then [NoteOn 1 BUTTON_MONO 0]
                else if paramName = ''dimMode'' then [NoteOn 1 BUTTON_REF 0]
                else if paramName = ''refMode'' then [NoteOn 1 BUTTON_DIM 0]
                else []) @ [NoteOn 1 (findButton getParameters paramName) 1])\<rparr>)"
  using assms
  by (simp add: modeChangedFunction.simps[of _ True] setValue_False sendMessageNow_def
        lufsProcessor_reset_def Let_def getParameters_def button_param_map_def button_defs)

lemma modeChanged_False_open:
  assumes "midiOutput s = Some sent"
  shows "modeChangedFunction paramName False s =
     Inr (s\<lparr>lufsResets := lufsResets s +
               (if paramName = ''dimMode'' \<or> paramName = ''refMode''
                   \<or> paramName = ''muteMode'' \<or> paramName = ''volModMode''
                then 0 else 1),
            midiOutput :=
              Some (sent @ [NoteOn 1 (findButton getParameters paramName) 0])\<rparr>)"
  using assms
  by (simp add: modeChanged_False sendMessageNow_def lufsProcessor_reset_def)

subsection \<open>Which changes reset the loudness measurement\<close>

text \<open>
  Claim C5 (amended). For every mode-parameter change that the callback completes, the
  loudness measurement accumulation is reset if and only if the changed parameter is not
  one of mute, dim, reference or the volume/modulate mode: the four names the guard of
  the callback lists. A change of the reset trigger \<^verbatim>\<open>lufsReset\<close> itself is not
  exempt and does reset the accumulation.
\<close>

theorem mode_change_resets_loudness:
  assumes "midiOutput s \<noteq> None"
  shows "\<exists>s'. modeChangedFunction paramName newValue s = Inr s' \<and>
           (lufsResets s < lufsResets s' \<longleftrightarrow>
              paramName \<noteq> ''dimMode'' \<and> paramName \<noteq> ''refMode''
                \<and> paramName \<noteq> ''muteMode'' \<and> paramName \<noteq> ''volModMode'')"
proof -
  from assms obtain sent where o: "midiOutput s = Some sent" by auto
  show ?thesis
  proof (cases newValue)
    case True
    then show ?thesis by (simp add: modeChanged_True_open [OF o])
  next
    case False
    then show ?thesis by (simp add: modeChanged_False_open [OF o])
  qed
qed

theorem mode_change_resets_loudness_witness:
  "midiOutput (DreamControlAudioProcessor True 0 0) \<noteq> None \<and>
   (\<exists>s'. modeChangedFunction ''lufsReset'' False (DreamControlAudioProcessor True 0 0) = Inr s'
        \<and> lufsResets (DreamControlAudioProcessor True 0 0) < lufsResets s')"
  using mode_change_resets_loudness
          [of "DreamControlAudioProcessor True 0 0" "''lufsReset''" False]
  by (simp add: DreamControlAudioProcessor_def)

text \<open>
  Claim C5 as stated fails: on a freshly constructed processor with an open output, a
  change of the reset trigger resets the measurement once, and a change of the
  volume/modulate mode, which is none of mute, dim, reference or the reset trigger, does
  not reset it.
\<close>

theorem reset_trigger_change_resets_loudness:
  "map_sum id lufsResets
     (modeChangedFunction ''lufsReset'' True (DreamControlAudioProcessor True 0 0)) = Inr 1 \<and>
   map_sum id lufsResets
     (modeChangedFunction ''volModMode'' True (DreamControlAudioProcessor True 0 0)) = Inr 0 \<and>
   lufsResets (DreamControlAudioProcessor True 0 0) = 0"
  by (simp add: modeChanged_True_open [where sent = "[]"] DreamControlAudioProcessor_def)

subsection \<open>Mutual exclusion of the pairs\<close>

text \<open>
  Claim C7. From every prior state (with the output port open, so that the change
  completes), setting mid-solo to true leaves mid-solo true and side-solo false, setting
  side-solo to true leaves mid-solo false, setting dim-mode to true leaves reference-mode
  false and setting reference-mode to true leaves dim-mode false.
\<close>

theorem exclusive_pairs_enforced:
  assumes "midiOutput s \<noteq> None"
  shows "(\<exists>s'. setValueNotifyingHost midSolo True s = Inr s'
               \<and> boolValue s' midSolo \<and> \<not> boolValue s' sideSolo) \<and>
         (\<exists>s'. setValueNotifyingHost sideSolo True s = Inr s'
               \<and> boolValue s' sideSolo \<and> \<not> boolValue s' midSolo) \<and>
         (\<exists>s'. setValueNotifyingHost dimMode True s = Inr s'
               \<and> boolValue s' dimMode \<and> \<not> boolValue s' refMode) \<and>
         (\<exists>s'. setValueNotifyingHost refMode True s = Inr s'
               \<and> boolValue s' refMode \<and> \<not> boolValue s' dimMode)"
proof -
  from assms obtain sent where o: "midiOutput s = Some sent" by auto
  show ?thesis
    by (simp add: setValueNotifyingHost.simps modeChanged_True_open o)
qed

text \<open>The spec's example: side-solo is true, then mid-solo is set to true.\<close>

theorem exclusive_pairs_enforced_witness:
  "midiOutput ((DreamControlAudioProcessor True 0 0)\<lparr>boolValue := (\<lambda>p. p = sideSolo)\<rparr>) \<noteq> None \<and>
   boolValue ((DreamControlAudioProcessor True 0 0)\<lparr>boolValue := (\<lambda>p. p = sideSolo)\<rparr>) sideSolo \<and>
   (\<exists>s'. setValueNotifyingHost midSolo True
            ((DreamControlAudioProcessor True 0 0)\<lparr>boolValue := (\<lambda>p. p = sideSolo)\<rparr>) = Inr s'
        \<and> boolValue s' midSolo \<and> \<not> boolValue s' sideSolo)"
  using exclusive_pairs_enforced
          [of "(DreamControlAudioProcessor True 0 0)\<lparr>boolValue := (\<lambda>p. p = sideSolo)\<rparr>"]
  by (simp add: DreamControlAudioProcessor_def)

text \<open>
  Claim C10. A change that sets a parameter to false modifies no other parameter's value:
  after \<open>setValueNotifyingHost p False\<close> the values are the old ones with \<open>p\<close> false, so
  for each pair the other member keeps its value; and the callback itself, run with a new
  value of false, leaves every value as it was. The clearing of the partner happens only
  for a new value of true.
\<close>

theorem false_change_keeps_partner:
  assumes "midiOutput s \<noteq> None"
  shows "(\<exists>s'. setValueNotifyingHost p False s = Inr s'
               \<and> boolValue s' = (boolValue s)(p := False)) \<and>
         (\<exists>s'. modeChangedFunction paramName False s = Inr s'
               \<and> boolValue s' = boolValue s)"
proof -
  from assms obtain sent where o: "midiOutput s = Some sent" by auto
  show ?thesis
    by (simp add: setValueNotifyingHost.simps modeChanged_False_open o)
qed

theorem false_change_keeps_partner_witness:
  "midiOutput ((DreamControlAudioProcessor True 0 0)\<lparr>boolValue := (\<lambda>p. True)\<rparr>) \<noteq> None \<and>
   (\<exists>s'. setValueNotifyingHost midSolo False
            ((DreamControlAudioProcessor True 0 0)\<lparr>boolValue := (\<lambda>p. True)\<rparr>) = Inr s'
        \<and> \<not> boolValue s' midSolo \<and> boolValue s' sideSolo) \<and>
   (\<exists>s'. setValueNotifyingHost dimMode False
            ((DreamControlAudioProcessor True 0 0)\<lparr>boolValue := (\<lambda>p. True)\<rparr>) = Inr s'
        \<and> \<not> boolValue s' dimMode \<and> boolValue s' refMode)"
proof -
  let ?s = "(DreamControlAudioProcessor True 0 0)\<lparr>boolValue := (\<lambda>p. True)\<rparr>"
  have o: "midiOutput ?s \<noteq> None"
    by (simp add: DreamControlAudioProcessor_def)
  from false_change_keeps_partner [OF o, of midSolo]
  obtain s1 where 1: "setValueNotifyingHost midSolo False ?s = Inr s1"
    and b1: "boolValue s1 = (boolValue ?s)(midSolo := False)" by blast
  from false_change_keeps_partner [OF o, of dimMode]
  obtain s2 where 2: "setValueNotifyingHost dimMode False ?s = Inr s2"
    and b2: "boolValue s2 = (boolValue ?s)(dimMode := False)" by blast
  from o 1 b1 2 b2 show ?thesis by simp
qed

subsection \<open>A null output port\<close>

text \<open>
  Claim C6 does not hold of the code. With the output port not opened
  (\<^verbatim>\<open>midiOutput = NULL\<close>) only the timer callback checks the pointer. A host edit of the
  mute parameter, a sync request from the hardware and a press of the mute button each
  reach \<^verbatim>\<open>midiOutput->sendMessageNow\<close> and dereference the null pointer.
\<close>

theorem null_output_faults:
  "setValueNotifyingHost muteMode True (DreamControlAudioProcessor False 0 0)
     = Inl NullPointerDereference \<and>
   handleIncomingMidiMessage (SysExIn [2]) (DreamControlAudioProcessor False 0 0)
     = Inl NullPointerDereference \<and>
   handleIncomingMidiMessage (NoteOnIn 18 127) (DreamControlAudioProcessor False 0 0)
     = Inl NullPointerDereference"
  by (simp add: setValueNotifyingHost.simps modeChanged_null handleIncomingMidiMessage_def
       sendMessageNow_def DreamControlAudioProcessor_def sysExData0_def
       SYSEX_COMMAND_SYNC_BUTTONS_def button_param_map_def button_defs)

subsection \<open>The router without a soloed band\<close>

lemma isAnyBandSolo_from_iff:
  "isAnyBandSolo_from s b \<longleftrightarrow>
     (\<exists>i. b \<le> i \<and> i < length bandSolo \<and> boolValue s (bandSolo ! i))"
proof (induction s b rule: isAnyBandSolo_from.induct)
  case (1 s b)
  show ?case
  proof (cases "b < length bandSolo")
    case False
    then show ?thesis
      by (subst isAnyBandSolo_from.simps) auto
  next
    case inside: True
    show ?thesis
    proof (cases "boolValue s (bandSolo ! b)")
      case True
      with inside show ?thesis
        by (subst isAnyBandSolo_from.simps) auto
    next
      case False
      have "isAnyBandSolo_from s b = isAnyBandSolo_from s (b + 1)"
        using inside False by (subst isAnyBandSolo_from.simps) simp
      also have "\<dots> \<longleftrightarrow>
          (\<exists>i. b + 1 \<le> i \<and> i < length bandSolo \<and> boolValue s (bandSolo ! i))"
        using "1.IH" inside False by simp
      also have "\<dots> \<longleftrightarrow>
          (\<exists>i. b \<le> i \<and> i < length bandSolo \<and> boolValue s (bandSolo ! i))"
        using False by (metis Suc_eq_plus1 Suc_leD Suc_leI le_neq_implies_less)
      finally show ?thesis .
    qed
  qed
qed

lemma isAnyBandSolo_iff:
  "isAnyBandSolo s \<longleftrightarrow> (\<exists>p \<in> set bandSolo. boolValue s p)"
  unfolding isAnyBandSolo_def isAnyBandSolo_from_iff
  by (metis in_set_conv_nth le0)

text \<open>
  With the lowest band soloed the router does filter: each channel runs through the two
  low-pass stages of band 0 (here a filter halves its input and counts its calls), and
  the other bands contribute nothing.
\<close>

lemma router_lowest_band_example:
  "bandSoloRouter (\<lambda>f source. (map (\<lambda>x. x / 2) source, Suc f))
       ((DreamControlAudioProcessor True 0 0)\<lparr>boolValue := (\<lambda>p. p = bandSolo0)\<rparr>) 2 [0, 0]
       ([[1, 2], [4, 8]], [[0,0,0,0,0,0,0,0,0,0,0,0], [0,0,0,0,0,0,0,0,0,0,0,0]])
     = ([[1 / 4, 1 / 2], [1, 2]], [[1,1,0,0,0,0,0,0,0,0,0,0], [1,1,0,0,0,0,0,0,0,0,0,0]])"
  by (simp add: bandSoloRouter_def isAnyBandSolo_def isAnyBandSolo_from.simps chanLoop.simps
        bandLoop.simps filterLoop.simps bandSolo_def numBands_def numCrossovers_def
        DreamControlAudioProcessor_def Let_def)

text \<open>
  Claim C9. For every audio block in which no band-solo flag is set, the band solo router
  returns the buffer it was given, sample for sample, and runs no filter: the crossover
  filters are returned as they were.
\<close>

theorem no_band_solo_passthrough:
  assumes "\<forall>p \<in> set bandSolo. \<not> boolValue s p"
  shows "bandSoloRouter applyFilter s numInputChannels scratch (buffer, crossoverFilters)
           = (buffer, crossoverFilters)"
  using assms by (simp add: bandSoloRouter_def isAnyBandSolo_iff)

theorem no_band_solo_passthrough_witness:
  "\<not> boolValue (DreamControlAudioProcessor True 0 0) bandSolo0 \<and>
   \<not> boolValue (DreamControlAudioProcessor True 0 0) bandSolo1 \<and>
   \<not> boolValue (DreamControlAudioProcessor True 0 0) bandSolo2 \<and>
   \<not> boolValue (DreamControlAudioProcessor True 0 0) bandSolo3 \<and>
   bandSoloRouter (\<lambda>f source. (map (\<lambda>x. x / 2) source, Suc f))
       (DreamControlAudioProcessor True 0 0) 2 [0, 0]
       ([[1 / 4, - 1 / 2], [3 / 4, 1]], [replicate 12 (0::nat), replicate 12 0])
     = ([[1 / 4, - 1 / 2], [3 / 4, 1]], [replicate 12 0, replicate 12 0])"
proof -
  have h: "\<forall>p \<in> set bandSolo. \<not> boolValue (DreamControlAudioProcessor True 0 0) p"
    by (simp add: DreamControlAudioProcessor_def)
  from no_band_solo_passthrough [OF h] show ?thesis
    by (simp add: DreamControlAudioProcessor_def)
qed


subsection \<open>The telemetry byte pair\<close>

lemma abs_modf_integral: "\<bar>modf_integral v\<bar> = of_int \<bar>spec_trunc v\<bar>"
  by (simp add: modf_integral_def spec_trunc_def)

lemma abs_roundf: "\<bar>roundf x\<bar> = of_int (round \<bar>x\<bar>)"
proof (cases "0 \<le> x")
  case True
  then have "0 \<le> \<lfloor>x + 1 / 2\<rfloor>" by simp
  with True show ?thesis by (simp add: roundf_def round_def)
next
  case False
  then have neg: "x < 0" by simp
  have "\<lceil>x - 1 / 2\<rceil> = - \<lfloor>- x + 1 / 2\<rfloor>"
    by (simp add: ceiling_def)
  moreover have "0 \<le> \<lfloor>- x + 1 / 2\<rfloor>" using neg by simp
  ultimately show ?thesis using neg by (simp add: roundf_def round_def)
qed

lemma char_of_float_int: "0 \<le> k \<Longrightarrow> char_of_float (of_int k) = word_of_int k"
  by (simp add: char_of_float_def)

lemma uint_byte_small: "0 \<le> k \<Longrightarrow> k \<le> 99 \<Longrightarrow> uint (word_of_int k :: byte) = k"
  by (simp add: uint_word_of_int take_bit_eq_mod)

lemma clamp99:
  "0 \<le> k \<Longrightarrow>
     (if real_of_int k > 99 then (99::real) else real_of_int k) = real_of_int (spec_clamp 0 99 k)"
  by (simp add: spec_clamp_def min_def max_def)

lemma spec_clamp_range: "0 \<le> spec_clamp 0 99 k \<and> spec_clamp 0 99 k \<le> 99"
  by (simp add: spec_clamp_def)

text \<open>Rules that evaluate the narrowing on a numeral.\<close>

lemmas float_eval = to_float_def binade_def round_to_even_def Let_def
  binade_up.simps(2) [of "pred_numeral k" for k, folded numeral_eq_Suc]
  binade_down.simps(2) [of "pred_numeral k" for k, folded numeral_eq_Suc]

lemma getMeter_eq:
  "getMeterIntegralFractional v =
     (word_of_int (spec_integral v),
      word_of_int (spec_clamp 0 99 (round \<bar>to_float (spec_frac v * 100)\<bar>)))"
proof -
  have f: "v - modf_integral v = spec_frac v"
    by (simp add: spec_frac_def modf_integral_def spec_trunc_def)
  have r: "\<bar>roundf (to_float (spec_frac v * 100))\<bar>
             = real_of_int (round \<bar>to_float (spec_frac v * 100)\<bar>)"
    by (rule abs_roundf)
  have r0: "0 \<le> round \<bar>to_float (spec_frac v * 100)\<bar>"
    by (simp add: round_def)
  have i: "(if \<bar>modf_integral v\<bar> > 99 then 99 else \<bar>modf_integral v\<bar>)
             = real_of_int (spec_integral v)"
    unfolding abs_modf_integral spec_integral_def by (rule clamp99) simp
  have fr: "(if \<bar>roundf (to_float ((v - modf_integral v) * 100))\<bar> > 99 then 99
             else \<bar>roundf (to_float ((v - modf_integral v) * 100))\<bar>)
             = real_of_int (spec_clamp 0 99 (round \<bar>to_float (spec_frac v * 100)\<bar>))"
    unfolding f r by (rule clamp99) (rule r0)
  have pi: "0 \<le> spec_integral v"
    using spec_clamp_range by (simp add: spec_integral_def)
  have pf: "0 \<le> spec_clamp 0 99 (round \<bar>to_float (spec_frac v * 100)\<bar>)"
    using spec_clamp_range by simp
  show ?thesis
    unfolding getMeterIntegralFractional_def Let_def i fr
    using pi pf by (simp add: char_of_float_int)
qed

text \<open>
  Evaluating the function on a numeral: the integral part and the narrowed product are
  computed first, then the rounding, the clamps and the casts.
\<close>

lemma getMeter_value:
  assumes "modf_integral v = i" and "to_float ((v - i) * 100) = p"
  shows "getMeterIntegralFractional v =
           (char_of_float (if \<bar>i\<bar> > 99 then 99 else \<bar>i\<bar>),
            char_of_float (if \<bar>roundf p\<bar> > 99 then 99 else \<bar>roundf p\<bar>))"
  using assms by (simp add: getMeterIntegralFractional_def Let_def)

lemma example_pairs:
  "getMeterIntegralFractional (- (237 / 10)) = (23, 70)"
  "getMeterIntegralFractional (- (41 / 2)) = (20, 50)"
  "getMeterIntegralFractional (- 24) = (24, 0)"
  "getMeterIntegralFractional (- (121 / 4)) = (30, 25)"
  "getMeterIntegralFractional (- (75 / 4)) = (18, 75)"
  "getMeterIntegralFractional (23 / 2) = (11, 50)"
  "getMeterIntegralFractional (- 16) = (16, 0)"
  "getMeterIntegralFractional (- (9 / 2)) = (4, 50)"
  "getMeterIntegralFractional (- 2) = (2, 0)"
  "getMeterIntegralFractional 0 = (0, 0)"
  "getMeterIntegralFractional (- 150) = (99, 0)"
proof -
  show "getMeterIntegralFractional (- (237 / 10)) = (23, 70)"
    by (subst getMeter_value [of _ "- 23" "- 70"])
       (simp_all add: modf_integral_def float_eval roundf_def char_of_float_def)
  show "getMeterIntegralFractional (- (41 / 2)) = (20, 50)"
    by (subst getMeter_value [of _ "- 20" "- 50"])
       (simp_all add: modf_integral_def float_eval roundf_def char_of_float_def)
  show "getMeterIntegralFractional (- 24) = (24, 0)"
    by (subst getMeter_value [of _ "- 24" 0])
       (simp_all add: modf_integral_def float_eval roundf_def char_of_float_def)
  show "getMeterIntegralFractional (- (121 / 4)) = (30, 25)"
    by (subst getMeter_value [of _ "- 30" "- 25"])
       (simp_all add: modf_integral_def float_eval roundf_def char_of_float_def)
  show "getMeterIntegralFractional (- (75 / 4)) = (18, 75)"
    by (subst getMeter_value [of _ "- 18" "- 75"])
       (simp_all add: modf_integral_def float_eval roundf_def char_of_float_def)
  show "getMeterIntegralFractional (23 / 2) = (11, 50)"
    by (subst getMeter_value [of _ 11 50])
       (simp_all add: modf_integral_def float_eval roundf_def char_of_float_def)
  show "getMeterIntegralFractional (- 16) = (16, 0)"
    by (subst getMeter_value [of _ "- 16" 0])
       (simp_all add: modf_integral_def float_eval roundf_def char_of_float_def)
  show "getMeterIntegralFractional (- (9 / 2)) = (4, 50)"
    by (subst getMeter_value [of _ "- 4" "- 50"])
       (simp_all add: modf_integral_def float_eval roundf_def char_of_float_def)
  show "getMeterIntegralFractional (- 2) = (2, 0)"
    by (subst getMeter_value [of _ "- 2" 0])
       (simp_all add: modf_integral_def float_eval roundf_def char_of_float_def)
  show "getMeterIntegralFractional 0 = (0, 0)"
    by (subst getMeter_value [of _ 0 0])
       (simp_all add: modf_integral_def float_eval roundf_def char_of_float_def)
  show "getMeterIntegralFractional (- 150) = (99, 0)"
    by (subst getMeter_value [of _ "- 150" 0])
       (simp_all add: modf_integral_def float_eval roundf_def char_of_float_def)
qed

lemma float_examples:
  "to_float (- 237 / 10) = - 12425626 / 524288"
  "to_float (- 301 / 200) = - 12624855 / 8388608"
  "to_float (- 1 / 200) = - 5368709 / 1073741824"
  by (simp_all add: float_eval)

lemma narrowed_pairs:
  "getMeterIntegralFractional (- 12425626 / 524288) = (23, 70)"
  "getMeterIntegralFractional (- 12624855 / 8388608) = (1, 51)"
  "getMeterIntegralFractional (- 5368709 / 1073741824) = (0, 1)"
proof -
  show "getMeterIntegralFractional (- 12425626 / 524288) = (23, 70)"
    by (subst getMeter_value [of _ "- 23" "- 36700200 / 524288"])
       (simp_all add: modf_integral_def float_eval roundf_def char_of_float_def)
  show "getMeterIntegralFractional (- 12624855 / 8388608) = (1, 51)"
    by (subst getMeter_value [of _ "- 1" "- 101 / 2"])
       (simp_all add: modf_integral_def float_eval roundf_def char_of_float_def)
  show "getMeterIntegralFractional (- 5368709 / 1073741824) = (0, 1)"
    by (subst getMeter_value [of _ 0 "- 1 / 2"])
       (simp_all add: modf_integral_def float_eval roundf_def char_of_float_def)
qed

text \<open>
  Claim C8 (amended). For every input value the integral byte is \<open>|trunc(value)|\<close> clamped
  to 0..99, and the fractional byte is \<open>round(p)\<close> clamped to 0..99, where \<open>p\<close> is
  \<open>|frac(value)| * 100\<close> narrowed to single precision (the nearest float, ties to even)
  before it is rounded; both are read as unsigned bytes. In particular the float nearest
  to -23.7 encodes as (23, 70), 0.0 as (0, 0) and -150.0 as (99, 0).
\<close>

theorem byte_pair_encoding:
  "uint (fst (getMeterIntegralFractional v)) = spec_integral v \<and>
   uint (snd (getMeterIntegralFractional v))
     = spec_clamp 0 99 (round \<bar>to_float (spec_frac v * 100)\<bar>) \<and>
   getMeterIntegralFractional (to_float (- 237 / 10)) = (23, 70) \<and>
   getMeterIntegralFractional 0 = (0, 0) \<and>
   getMeterIntegralFractional (- 150) = (99, 0)"
proof -
  have a: "uint (fst (getMeterIntegralFractional v)) = spec_integral v"
    using spec_clamp_range [of "\<bar>spec_trunc v\<bar>"]
    by (simp add: getMeter_eq uint_byte_small spec_integral_def)
  have b: "uint (snd (getMeterIntegralFractional v))
             = spec_clamp 0 99 (round \<bar>to_float (spec_frac v * 100)\<bar>)"
    using spec_clamp_range [of "round \<bar>to_float (spec_frac v * 100)\<bar>"]
    by (simp add: getMeter_eq uint_byte_small)
  have c: "getMeterIntegralFractional (to_float (- 237 / 10)) = (23, 70)"
    unfolding float_examples by (rule narrowed_pairs)
  from a b c example_pairs(10,11) show ?thesis by blast
qed

text \<open>
  Claim C8 as stated fails: for the float nearest to -1.505 the product of the fraction
  with 100 is 50.4999995..., which narrows to the float 50.5 and rounds to 51, where
  \<open>round(|frac(value)| * 100)\<close> is 50; and the float nearest to -0.005 encodes as (0, 1),
  not (0, 0).
\<close>

theorem narrowed_product_rounds_up:
  "getMeterIntegralFractional (to_float (- 301 / 200)) = (1, 51) \<and>
   spec_integral (to_float (- 301 / 200)) = 1 \<and>
   spec_fractional (to_float (- 301 / 200)) = 50 \<and>
   getMeterIntegralFractional (to_float (- 1 / 200)) = (0, 1) \<and>
   spec_integral (to_float (- 1 / 200)) = 0 \<and>
   spec_fractional (to_float (- 1 / 200)) = 0"
proof -
  have c: "spec_integral (- 12624855 / 8388608) = 1"
    "spec_fractional (- 12624855 / 8388608) = 50"
    "spec_integral (- 5368709 / 1073741824) = 0"
    "spec_fractional (- 5368709 / 1073741824) = 0"
    by (simp_all add: spec_integral_def spec_fractional_def spec_clamp_def spec_frac_def
          spec_trunc_def round_def)
  from narrowed_pairs(2,3) c show ?thesis unfolding float_examples by simp
qed

subsection \<open>The timer callback, unfolded\<close>

lemma findButton_lufsReset: "findButton getParameters ''lufsReset'' = 35"
  by (simp add: getParameters_def button_param_map_def button_defs)

lemma normalise_lufs:
  "((if v \<ge> LOWEST_LUFS_VALUE then v else LOWEST_LUFS_VALUE) - LOWEST_LUFS_VALUE)
      / - LOWEST_LUFS_VALUE = spec_normalized (- 64) v"
  by (simp add: LOWEST_LUFS_VALUE_def spec_normalized_def max_def)

lemma lufsMeter_unfolded:
  "lufsMeter m s =
     (if boolValue s lufsReset then
        (case setValueNotifyingHost lufsReset False (s\<lparr>
             lufsShort := spec_normalized (- 64) (lufsSval m),
             lufsMomentary := spec_normalized (- 64) (lufsMval m),
             lufsIntegrated := spec_normalized (- 64) (lufsIval m),
             lufsRangeMin := spec_normalized (- 64) (lufsMinVal m),
             lufsRangeMax := spec_normalized (- 64) (lufsMaxVal m)\<rparr>) of
           Inl e \<Rightarrow> Inl e
         | Inr s2 \<Rightarrow> Inr ((lufsProcessor_reset s2)\<lparr>msSinceLastPeakReset := 0\<rparr>))
      else Inr (s\<lparr>
             lufsShort := spec_normalized (- 64) (lufsSval m),
             lufsMomentary := spec_normalized (- 64) (lufsMval m),
             lufsIntegrated := spec_normalized (- 64) (lufsIval m),
             lufsRangeMin := spec_normalized (- 64) (lufsMinVal m),
             lufsRangeMax := spec_normalized (- 64) (lufsMaxVal m)\<rparr>))"
  unfolding lufsMeter_def Let_def normalise_lufs by simp

lemma lufsMeter_no_reset:
  assumes "\<not> boolValue s lufsReset"
  shows "lufsMeter m s = Inr (s\<lparr>
     lufsShort := spec_normalized (- 64) (lufsSval m),
     lufsMomentary := spec_normalized (- 64) (lufsMval m),
     lufsIntegrated := spec_normalized (- 64) (lufsIval m),
     lufsRangeMin := spec_normalized (- 64) (lufsMinVal m),
     lufsRangeMax := spec_normalized (- 64) (lufsMaxVal m)\<rparr>)"
  using assms by (simp add: lufsMeter_unfolded)

lemma lufsMeter_reset_null:
  assumes "boolValue s lufsReset" "midiOutput s = None"
  shows "lufsMeter m s = Inl NullPointerDereference"
  using assms
  by (simp add: lufsMeter_unfolded setValue_False sendMessageNow_def lufsProcessor_reset_def)

lemma lufsMeter_reset_open:
  assumes "boolValue s lufsReset" "midiOutput s = Some sent"
  shows "lufsMeter m s = Inr (s\<lparr>
     lufsShort := spec_normalized (- 64) (lufsSval m),
     lufsMomentary := spec_normalized (- 64) (lufsMval m),
     lufsIntegrated := spec_normalized (- 64) (lufsIval m),
     lufsRangeMin := spec_normalized (- 64) (lufsMinVal m),
     lufsRangeMax := spec_normalized (- 64) (lufsMaxVal m),
     boolValue := (boolValue s)(lufsReset := False),
     lufsResets := lufsResets s + 2,
     midiOutput := Some (sent @ [NoteOn 1 BUTTON_RESET_METER 0]),
     msSinceLastPeakReset := 0\<rparr>)"
  using assms
  by (simp add: lufsMeter_unfolded setValue_False sendMessageNow_def
        lufsProcessor_reset_def findButton_lufsReset BUTTON_RESET_METER_def)

lemma lufsMeter_cases:
  obtains (quiet) "\<not> boolValue s lufsReset" 
  | (null) "boolValue s lufsReset" "midiOutput s = None"
  | (opened) sent where "boolValue s lufsReset" "midiOutput s = Some sent"
  by (cases "midiOutput s") auto

lemma lufsMeter_fields:
  assumes "lufsMeter m s = Inr s1"
  shows "lastMaxLeft s1 = lastMaxLeft s" "lastMaxRight s1 = lastMaxRight s"
    "peakHoldSeconds s1 = peakHoldSeconds s" "lufsTarget s1 = lufsTarget s"
    "clipMeterLeft s1 = clipMeterLeft s" "clipMeterRight s1 = clipMeterRight s"
    "peakMeterMaxLeft s1 = peakMeterMaxLeft s" "peakMeterMaxRight s1 = peakMeterMaxRight s"
    "msSinceLastPeakReset s1 = (if boolValue s lufsReset then 0 else msSinceLastPeakReset s)"
    "(midiOutput s1 = None) = (midiOutput s = None)"
    "\<not> boolValue s1 lufsReset"
    "lufsShort s1 = spec_normalized (- 64) (lufsSval m)"
    "lufsMomentary s1 = spec_normalized (- 64) (lufsMval m)"
    "lufsIntegrated s1 = spec_normalized (- 64) (lufsIval m)"
    "lufsRangeMin s1 = spec_normalized (- 64) (lufsMinVal m)"
    "lufsRangeMax s1 = spec_normalized (- 64) (lufsMaxVal m)"
  using assms
  by (cases s rule: lufsMeter_cases;
      auto simp: lufsMeter_no_reset lufsMeter_reset_null lufsMeter_reset_open)+

lemma lufsMeter_returns:
  "(\<exists>s1. lufsMeter m s = Inr s1) \<longleftrightarrow> (boolValue s lufsReset \<longrightarrow> midiOutput s \<noteq> None)"
  by (cases s rule: lufsMeter_cases)
     (auto simp: lufsMeter_no_reset lufsMeter_reset_null lufsMeter_reset_open)


lemma normalise_peak:
  "((if v \<ge> LOWEST_TRUE_PEAK_VALUE - HIGHEST_TRUE_PEAK_VALUE then v
     else LOWEST_TRUE_PEAK_VALUE - HIGHEST_TRUE_PEAK_VALUE)
      - (LOWEST_TRUE_PEAK_VALUE - HIGHEST_TRUE_PEAK_VALUE))
      / - (LOWEST_TRUE_PEAK_VALUE - HIGHEST_TRUE_PEAK_VALUE) = spec_normalized (- 128) v"
  by (simp add: LOWEST_TRUE_PEAK_VALUE_def HIGHEST_TRUE_PEAK_VALUE_def spec_normalized_def max_def)

lemma truePeakMeter_unfolded:
  "truePeakMeter m s =
     (let peakLval = truePeakL m - 3;
          peakRval = truePeakR m - 3;
          peakHold = peakHoldSeconds s;
          expired = (peakHold = 0 \<or> msSinceLastPeakReset s \<ge> peakHold * 1000);
          heldL = (expired \<or> peakLval > lastMaxLeft s);
          heldR = (expired \<or> peakRval > lastMaxRight s)
      in s\<lparr>peakMeterLeft := spec_normalized (- 128) peakLval,
            peakMeterRight := spec_normalized (- 128) peakRval,
            peakMeterMaxLeft :=
              (if heldL then spec_normalized (- 128) peakLval else peakMeterMaxLeft s),
            clipMeterLeft := (if heldL then 0 < truePeakL m else clipMeterLeft s),
            lastMaxLeft := (if heldL then peakLval else lastMaxLeft s),
            peakMeterMaxRight :=
              (if heldR then spec_normalized (- 128) peakRval else peakMeterMaxRight s),
            clipMeterRight := (if heldR then 0 < truePeakR m else clipMeterRight s),
            lastMaxRight := (if heldR then peakRval else lastMaxRight s),
            msSinceLastPeakReset :=
              (if expired then 0 else msSinceLastPeakReset s)
                + (if peakHold > 0 then 10 else 0)\<rparr>)"
proof -
  consider (a) "peakHoldSeconds s = 0"
    | (b) "peakHoldSeconds s \<noteq> 0" "msSinceLastPeakReset s \<ge> peakHoldSeconds s * 1000"
    | (c) "peakHoldSeconds s \<noteq> 0" "\<not> msSinceLastPeakReset s \<ge> peakHoldSeconds s * 1000"
    by blast
  then show ?thesis
  proof cases
    case a
    then show ?thesis
      unfolding truePeakMeter_def Let_def normalise_peak
      by (simp add: HIGHEST_TRUE_PEAK_VALUE_def CALLBACK_TIMER_PERIOD_MS_def)
  next
    case b
    then show ?thesis
      unfolding truePeakMeter_def Let_def normalise_peak
      by (simp add: HIGHEST_TRUE_PEAK_VALUE_def CALLBACK_TIMER_PERIOD_MS_def)
  next
    case c
    then show ?thesis
      unfolding truePeakMeter_def Let_def normalise_peak
      by (cases "truePeakL m - 3 > lastMaxLeft s"; cases "truePeakR m - 3 > lastMaxRight s";
          cases "0 < peakHoldSeconds s";
          simp add: HIGHEST_TRUE_PEAK_VALUE_def CALLBACK_TIMER_PERIOD_MS_def)
  qed
qed




lemma sendMeterData_open:
  "midiOutput s = Some sent \<Longrightarrow>
     sendMeterData m s =
       Inr (s\<lparr>midiOutput :=
              Some (sent @ [SysEx (sysexData m (truePeakL m - 3) (truePeakR m - 3) s)])\<rparr>)"
  by (simp add: sendMeterData_def Let_def sendMessageNow_def HIGHEST_TRUE_PEAK_VALUE_def)

lemma sendMeterData_null:
  "midiOutput s = None \<Longrightarrow> sendMeterData m s = Inr s"
  by (simp add: sendMeterData_def Let_def)

lemma truePeakMeter_keeps:
  "midiOutput (truePeakMeter m s) = midiOutput s"
  "lufsTarget (truePeakMeter m s) = lufsTarget s"
  "peakHoldSeconds (truePeakMeter m s) = peakHoldSeconds s"
  "boolValue (truePeakMeter m s) = boolValue s"
  "lufsShort (truePeakMeter m s) = lufsShort s"
  "lufsMomentary (truePeakMeter m s) = lufsMomentary s"
  "lufsIntegrated (truePeakMeter m s) = lufsIntegrated s"
  "lufsRangeMin (truePeakMeter m s) = lufsRangeMin s"
  "lufsRangeMax (truePeakMeter m s) = lufsRangeMax s"
  by (simp_all add: truePeakMeter_unfolded Let_def)

lemma sendMeterData_cases:
  obtains (null) "midiOutput s = None" "sendMeterData m s = Inr s"
  | (opened) sent where "midiOutput s = Some sent"
      "sendMeterData m s =
         Inr (s\<lparr>midiOutput :=
              Some (sent @ [SysEx (sysexData m (truePeakL m - 3) (truePeakR m - 3) s)])\<rparr>)"
  by (cases "midiOutput s") (auto simp: sendMeterData_open sendMeterData_null)

text \<open>A tick that returns is a returning loudness block followed by the other two blocks.\<close>

lemma tick_Inr:
  assumes "hiResTimerCallback m s = Inr s'"
  obtains s1 where "lufsMeter m s = Inr s1"
    and "sendMeterData m (truePeakMeter m s1) = Inr s'"
  using assms by (auto simp: hiResTimerCallback_def split: sum.splits)

lemma sendMeterData_fields:
  assumes "sendMeterData m s = Inr s'"
  shows "lastMaxLeft s' = lastMaxLeft s" "lastMaxRight s' = lastMaxRight s"
    "msSinceLastPeakReset s' = msSinceLastPeakReset s"
    "peakHoldSeconds s' = peakHoldSeconds s"
    "clipMeterLeft s' = clipMeterLeft s" "clipMeterRight s' = clipMeterRight s"
    "peakMeterLeft s' = peakMeterLeft s" "peakMeterRight s' = peakMeterRight s"
    "peakMeterMaxLeft s' = peakMeterMaxLeft s" "peakMeterMaxRight s' = peakMeterMaxRight s"
    "lufsShort s' = lufsShort s" "lufsMomentary s' = lufsMomentary s"
    "lufsIntegrated s' = lufsIntegrated s" "lufsRangeMin s' = lufsRangeMin s"
    "lufsRangeMax s' = lufsRangeMax s" "boolValue s' = boolValue s"
  using assms by (cases rule: sendMeterData_cases [where s = s and m = m]; auto)+

lemma tick_returns:
  "(\<exists>s'. hiResTimerCallback m s = Inr s') \<longleftrightarrow> (boolValue s lufsReset \<longrightarrow> midiOutput s \<noteq> None)"
proof -
  have "(\<exists>s'. hiResTimerCallback m s = Inr s') \<longleftrightarrow> (\<exists>s1. lufsMeter m s = Inr s1)"
  proof
    assume "\<exists>s'. hiResTimerCallback m s = Inr s'"
    then show "\<exists>s1. lufsMeter m s = Inr s1" by (auto elim: tick_Inr)
  next
    assume "\<exists>s1. lufsMeter m s = Inr s1"
    then obtain s1 where 1: "lufsMeter m s = Inr s1" by blast
    show "\<exists>s'. hiResTimerCallback m s = Inr s'"
      by (rule sendMeterData_cases [where s = "truePeakMeter m s1" and m = m])
         (simp_all add: hiResTimerCallback_def 1)
  qed
  then show ?thesis by (simp add: lufsMeter_returns)
qed

lemma tick_hold_fields:
  assumes "hiResTimerCallback m s = Inr s'"
  defines "e \<equiv> if boolValue s lufsReset then 0 else msSinceLastPeakReset s"
  defines "expired \<equiv> peakHoldSeconds s = 0 \<or> e \<ge> peakHoldSeconds s * 1000"
  shows "lastMaxLeft s' =
           (if expired \<or> truePeakL m - 3 > lastMaxLeft s then truePeakL m - 3 else lastMaxLeft s)"
    and "lastMaxRight s' =
           (if expired \<or> truePeakR m - 3 > lastMaxRight s then truePeakR m - 3 else lastMaxRight s)"
    and "clipMeterLeft s' =
           (if expired \<or> truePeakL m - 3 > lastMaxLeft s then 0 < truePeakL m else clipMeterLeft s)"
    and "clipMeterRight s' =
           (if expired \<or> truePeakR m - 3 > lastMaxRight s then 0 < truePeakR m else clipMeterRight s)"
    and "peakMeterMaxLeft s' =
           (if expired \<or> truePeakL m - 3 > lastMaxLeft s
            then spec_normalized (- 128) (truePeakL m - 3) else peakMeterMaxLeft s)"
    and "peakMeterMaxRight s' =
           (if expired \<or> truePeakR m - 3 > lastMaxRight s
            then spec_normalized (- 128) (truePeakR m - 3) else peakMeterMaxRight s)"
    and "msSinceLastPeakReset s' =
           (if expired then 0 else e) + (if 0 < peakHoldSeconds s then 10 else 0)"
    and "peakHoldSeconds s' = peakHoldSeconds s"
    and "\<not> boolValue s' lufsReset"
    and "(midiOutput s' = None) = (midiOutput s = None)"
proof -
  from assms(1) obtain s1 where 1: "lufsMeter m s = Inr s1"
    and 2: "sendMeterData m (truePeakMeter m s1) = Inr s'" by (rule tick_Inr)
  note f1 = lufsMeter_fields [OF 1]
  note f2 = sendMeterData_fields [OF 2]
  show "lastMaxLeft s' =
           (if expired \<or> truePeakL m - 3 > lastMaxLeft s then truePeakL m - 3 else lastMaxLeft s)"
    unfolding f2 expired_def e_def by (simp add: truePeakMeter_unfolded Let_def f1)
  show "lastMaxRight s' =
           (if expired \<or> truePeakR m - 3 > lastMaxRight s then truePeakR m - 3 else lastMaxRight s)"
    unfolding f2 expired_def e_def by (simp add: truePeakMeter_unfolded Let_def f1)
  show "clipMeterLeft s' =
           (if expired \<or> truePeakL m - 3 > lastMaxLeft s then 0 < truePeakL m else clipMeterLeft s)"
    unfolding f2 expired_def e_def by (simp add: truePeakMeter_unfolded Let_def f1)
  show "clipMeterRight s' =
           (if expired \<or> truePeakR m - 3 > lastMaxRight s then 0 < truePeakR m else clipMeterRight s)"
    unfolding f2 expired_def e_def by (simp add: truePeakMeter_unfolded Let_def f1)
  show "peakMeterMaxLeft s' =
           (if expired \<or> truePeakL m - 3 > lastMaxLeft s
            then spec_normalized (- 128) (truePeakL m - 3) else peakMeterMaxLeft s)"
    unfolding f2 expired_def e_def by (simp add: truePeakMeter_unfolded Let_def f1)
  show "peakMeterMaxRight s' =
           (if expired \<or> truePeakR m - 3 > lastMaxRight s
            then spec_normalized (- 128) (truePeakR m - 3) else peakMeterMaxRight s)"
    unfolding f2 expired_def e_def by (simp add: truePeakMeter_unfolded Let_def f1)
  show "msSinceLastPeakReset s' =
           (if expired then 0 else e) + (if 0 < peakHoldSeconds s then 10 else 0)"
    unfolding f2 expired_def e_def by (simp add: truePeakMeter_unfolded Let_def f1)
  show "peakHoldSeconds s' = peakHoldSeconds s"
    unfolding f2 by (simp add: truePeakMeter_keeps f1)
  show "\<not> boolValue s' lufsReset"
    unfolding f2 by (simp add: truePeakMeter_keeps f1)
  show "(midiOutput s' = None) = (midiOutput s = None)"
    using 2 f1(10)
    by (cases rule: sendMeterData_cases [where s = "truePeakMeter m s1" and m = m])
       (auto simp: truePeakMeter_keeps)
qed


lemma tick_quiet:
  "\<not> boolValue s lufsReset \<Longrightarrow> \<exists>s'. hiResTimerCallback m s = Inr s'"
  by (simp add: tick_returns)

subsection \<open>The meter-data message\<close>





subsection \<open>Normalised meter parameters\<close>

text \<open>
  Claim C4 (amended). On a timer tick that returns, every loudness metric is written back
  as \<open>(clamp(value, floor) - floor) / (-floor)\<close> with the loudness floor -64, so a value
  at the floor gives 0, 0 dB gives 1 and a value below the floor gives 0. The per-channel
  true peak is written back by the same formula applied to the reading less the 3 dB
  ceiling, with the floor -128: a reading of -125 dB or below gives 0 and a reading of
  +3 dB gives 1 (so a reading of 0 dB gives 125/128, not 1).
\<close>

theorem meter_normalisation:
  assumes "hiResTimerCallback m s = Inr s'"
  shows "lufsShort s' = spec_normalized (- 64) (lufsSval m) \<and>
         lufsMomentary s' = spec_normalized (- 64) (lufsMval m) \<and>
         lufsIntegrated s' = spec_normalized (- 64) (lufsIval m) \<and>
         lufsRangeMin s' = spec_normalized (- 64) (lufsMinVal m) \<and>
         lufsRangeMax s' = spec_normalized (- 64) (lufsMaxVal m) \<and>
         peakMeterLeft s' = spec_normalized (- 128) (truePeakL m - 3) \<and>
         peakMeterRight s' = spec_normalized (- 128) (truePeakR m - 3) \<and>
         spec_normalized (- 64) (- 64) = 0 \<and> spec_normalized (- 64) 0 = 1 \<and>
         spec_normalized (- 64) (min v (- 64)) = 0 \<and>
         spec_normalized (- 128) (- 125 - 3) = 0 \<and> spec_normalized (- 128) (3 - 3) = 1 \<and>
         spec_normalized (- 128) (min w (- 125) - 3) = 0"
proof -
  from assms obtain s1 where 1: "lufsMeter m s = Inr s1"
    and 2: "sendMeterData m (truePeakMeter m s1) = Inr s'" by (rule tick_Inr)
  have p: "peakMeterLeft (truePeakMeter m s1) = spec_normalized (- 128) (truePeakL m - 3)"
    "peakMeterRight (truePeakMeter m s1) = spec_normalized (- 128) (truePeakR m - 3)"
    by (simp_all add: truePeakMeter_unfolded Let_def)
  have n: "spec_normalized (- 64) (- 64) = 0" "spec_normalized (- 64) 0 = 1"
    "spec_normalized (- 64) (min v (- 64)) = 0"
    "spec_normalized (- 128) (- 125 - 3) = 0" "spec_normalized (- 128) (3 - 3) = 1"
    "spec_normalized (- 128) (min w (- 125) - 3) = 0"
    by (simp_all add: spec_normalized_def max_def min_def)
  show ?thesis
    using sendMeterData_fields [OF 2] lufsMeter_fields [OF 1] p n
    by (simp add: truePeakMeter_keeps)
qed


theorem meter_normalisation_witness:
  "\<exists>s'. hiResTimerCallback (exampleReadings (- 61) 3) (DreamControlAudioProcessor True 0 0)
           = Inr s'
      \<and> lufsIntegrated s' = 5 / 8 \<and> peakMeterLeft s' = 1 / 2 \<and> peakMeterRight s' = 1"
proof -
  let ?s = "DreamControlAudioProcessor True 0 0"
  let ?m = "exampleReadings (- 61) 3"
  obtain s' where t: "hiResTimerCallback ?m ?s = Inr s'"
    using tick_quiet [of ?s ?m] by (auto simp: DreamControlAudioProcessor_def)
  from meter_normalisation [OF t]
  have "lufsIntegrated s' = 5 / 8 \<and> peakMeterLeft s' = 1 / 2 \<and> peakMeterRight s' = 1"
    by (simp add: exampleReadings_def spec_normalized_def)
  with t show ?thesis by blast
qed

text \<open>
  Claim C4 as stated fails for the true peak: a true-peak reading of 0 dB is written back
  as 125/128, not as 1.
\<close>

theorem true_peak_zero_db_not_one:
  "map_sum id peakMeterLeft
     (hiResTimerCallback (exampleReadings 0 0) (DreamControlAudioProcessor True 0 0))
     = Inr (125 / 128)"
proof -
  let ?s = "DreamControlAudioProcessor True 0 0"
  let ?m = "exampleReadings 0 0"
  obtain s' where t: "hiResTimerCallback ?m ?s = Inr s'"
    using tick_quiet [of ?s ?m] by (auto simp: DreamControlAudioProcessor_def)
  then obtain s1 where 1: "lufsMeter ?m ?s = Inr s1"
    and 2: "sendMeterData ?m (truePeakMeter ?m s1) = Inr s'" by (rule tick_Inr)
  have "peakMeterLeft s' = 125 / 128"
    unfolding sendMeterData_fields [OF 2]
    by (simp add: truePeakMeter_unfolded Let_def exampleReadings_def spec_normalized_def)
  with t show ?thesis by simp
qed


subsection \<open>The clip indicator\<close>

text \<open>
  The clip Parameter of a channel is written only together with the held value of that
  channel, inside the hold condition (lines 541-552). In the arithmetic of the model, once
  the clip Parameter agrees with the held value (it is true exactly when the held value
  stands for a reading above 0 dB) it agrees after every tick, and from an agreeing state
  a reading above 0 dB leaves it true. The constructor gives \<^verbatim>\<open>lastMaxLeft\<close> and
  \<^verbatim>\<open>lastMaxRight\<close> no value, so the state it leaves need not agree.
\<close>

lemma clip_agreement:
  assumes "hiResTimerCallback m s = Inr s'"
  shows "clipMeterLeft s = (0 < lastMaxLeft s + 3)
           \<Longrightarrow> clipMeterLeft s' = (0 < lastMaxLeft s' + 3)"
    and "clipMeterRight s = (0 < lastMaxRight s + 3)
           \<Longrightarrow> clipMeterRight s' = (0 < lastMaxRight s' + 3)"
    and "clipMeterLeft s = (0 < lastMaxLeft s + 3) \<Longrightarrow> 0 < truePeakL m \<Longrightarrow> clipMeterLeft s'"
    and "clipMeterRight s = (0 < lastMaxRight s + 3) \<Longrightarrow> 0 < truePeakR m \<Longrightarrow> clipMeterRight s'"
  using tick_hold_fields(1-4) [OF assms] by (auto split: if_splits)

text \<open>
  Claim C3 does not hold of the code. On a processor just constructed, with the output
  open, the unassigned \<^verbatim>\<open>lastMaxLeft\<close> holding 0 and the default hold of 5 s, the first
  tick reads a true peak of 1 dB, above the clip threshold. The hold condition of line 541
  is false (the hold is not zero, no time has elapsed, and -2 is not above 0), so the
  write of line 544 is not reached and the left clip Parameter stays false. The packet of
  the same tick, built at line 596 outside the hold condition, carries the clip bytes 1
  and 1.
\<close>

theorem clip_not_set_below_held_peak:
  "map_sum id clipMeterLeft
     (hiResTimerCallback (exampleReadings 1 1) (DreamControlAudioProcessor True 0 0)) = Inr False \<and>
   0 < truePeakL (exampleReadings 1 1) \<and>
   map_sum id midiOutput
     (hiResTimerCallback (exampleReadings 1 1) (DreamControlAudioProcessor True 0 0)) =
   Inr (Some [SysEx [0x00, 0x21, 0x69, 1, 23, 70, 20, 50, 24, 0, 30, 25, 18, 75, 11, 50,
                     16, 0, 2, 0, 2, 0, 0, 0, 0, 0, 0, 0, 1, 1]])"
proof -
  let ?s = "DreamControlAudioProcessor True 0 0"
  let ?m = "exampleReadings 1 1"
  obtain s' where t: "hiResTimerCallback ?m ?s = Inr s'"
    using tick_quiet [of ?s ?m] by (auto simp: DreamControlAudioProcessor_def)
  from tick_hold_fields(3) [OF t] have "clipMeterLeft s' = False"
    by (simp add: DreamControlAudioProcessor_def exampleReadings_def)
  with t have a: "map_sum id clipMeterLeft (hiResTimerCallback ?m ?s) = Inr False"
    by simp
  have b: "0 < truePeakL ?m" by (simp add: exampleReadings_def)
  have c: "map_sum id midiOutput (hiResTimerCallback ?m ?s) =
     Inr (Some [SysEx [0x00, 0x21, 0x69, 1, 23, 70, 20, 50, 24, 0, 30, 25, 18, 75, 11, 50,
                     16, 0, 2, 0, 2, 0, 0, 0, 0, 0, 0, 0, 1, 1]])"
    by (simp add: hiResTimerCallback_def lufsMeter_no_reset truePeakMeter_unfolded
        sendMeterData_open [where sent = "[]"] sysexData_def Let_def example_pairs
        DreamControlAudioProcessor_def exampleReadings_def sysexManufacturerId_def
        SYSEX_COMMAND_METER_DATA_def HIGHEST_TRUE_PEAK_VALUE_def)
  from a b c show ?thesis by blast
qed

subsection \<open>The peak-hold tracker\<close>








end
